theory Spec2Isabelle
  imports Main "HOL-Library.Word" "HOL-Library.Multiset"
begin

unbundle bit_operations_syntax

section \<open>The predicate engine of qjs-modules\<close>

text \<open>
  A shallow embedding of \<open>predicate.c\<close>: the predicate nodes, the evaluator
  \<open>predicate_eval\<close> with \<open>predicate_value\<close> and \<open>predicate_call\<close>, the slot count
  \<open>predicate_recursive_num_args\<close>, and \<open>predicate_clone\<close> and \<open>predicate_free_rt\<close>.
  The script runtime (QuickJS), the regular-expression engine and the C library are outside
  the repository; what the code asks of them is either written out where the answer is
  fixed by the language (truthiness, integers) or taken from a record of functions,
  \<open>host\<close>.
\<close>

subsection \<open>Values and nodes\<close>

text \<open>
  A double is its 64 bits; arithmetic on doubles is left to the host. An atom is the
  32-bit number of a property name, 0 being the null atom. Compiled regular expressions are
  byte buffers.
\<close>

type_synonym float64 = "64 word"
type_synonym JSAtom = "32 word"
type_synonym lre_bytecode = "8 word list"

text \<open>The exception pending in the context travels with the exception marker.\<close>

datatype js_error = TypeError string | InternalError string

text \<open>
  The kinds of \<open>enum predicate_id\<close>, grouped by the member of the union they use:
  \<open>unary\<close>, \<open>binary\<close> and \<open>boolean\<close>. The remaining kinds have a variant of their
  own below.
\<close>

datatype unary_id = PREDICATE_NOTNOT | PREDICATE_NOT | PREDICATE_BNOT | PREDICATE_SQRT
  | PREDICATE_INSTANCEOF | PREDICATE_PROTOTYPEIS | PREDICATE_EQUAL

datatype binary_id = PREDICATE_ADD | PREDICATE_SUB | PREDICATE_MUL | PREDICATE_DIV
  | PREDICATE_MOD | PREDICATE_BOR | PREDICATE_BAND | PREDICATE_POW | PREDICATE_ATAN2

datatype boolean_id = PREDICATE_OR | PREDICATE_AND | PREDICATE_XOR

text \<open>
  A value of the script runtime and a predicate node. A value is the undefined or null
  marker, the exception marker, a boolean, a 32-bit integer, a double, a string (its UTF-8
  bytes), a plain object (its properties by atom), an array, a function (known by a number;
  the host runs it), or an object of the predicate class, which holds a node. An operand of
  a node is a value: a nested predicate, a literal, or null or undefined for an unset
  slot. A Charset node carries its literal and the cache of decoded code points (empty
  until filled), a Regex node its pattern, its flags and the compiled form (null until
  compiled), a Shift node its skip count, a Function node the callable, the receiver and
  the arity.
\<close>

datatype JSValue =
    JS_UNDEFINED
  | JS_NULL
  | JS_EXCEPTION js_error
  | JS_Bool bool
  | JS_Int "32 word"
  | JS_Float64 float64
  | JS_String string
  | JS_Object "(JSAtom \<times> JSValue) list"
  | JS_Array "JSValue list"
  | JS_Function nat
  | JS_Predicate Predicate
and Predicate =
    TypePredicate "32 word"
  | CharsetPredicate string "32 word list"
  | StringPredicate string
  | UnaryPredicate unary_id JSValue
  | BinaryPredicate binary_id JSValue JSValue
  | BooleanPredicate boolean_id "JSValue list"
  | RegExpPredicate string int "lre_bytecode option"
  | PropertyPredicate JSAtom JSValue
  | MemberPredicate JSValue
  | ShiftPredicate int JSValue
  | FunctionPredicate JSValue JSValue int

subsection \<open>The external collaborators\<close>

text \<open>
  What the evaluator obtains from outside the repository, as functions of their arguments:
  the type bits and the type name of a value, the UTF-8 decoder (the code point at the
  head of a byte string and the number of bytes it takes beyond the first), the conversions
  of a value to text, to a double and to a 64-bit integer where the language leaves work to
  do, the double of a 64-bit integer, arithmetic and square root on doubles, the
  regular-expression compiler (no result when the pattern is rejected), the capture count
  and the matcher, the call of a function with a receiver and arguments, and the object
  relations instanceof, prototype, identity and equality, and the atom of a key.
\<close>

record host =
  h_value_type :: "JSValue \<Rightarrow> 32 word"
  h_value_typestr :: "JSValue \<Rightarrow> string"
  h_unicode_from_utf8 :: "string \<Rightarrow> 32 word \<times> nat"
  h_ToCString :: "JSValue \<Rightarrow> string"
  h_ToFloat64 :: "JSValue \<Rightarrow> float64"
  h_ToInt64 :: "JSValue \<Rightarrow> 64 word"
  h_NewFloat64_int64 :: "64 word \<Rightarrow> float64"
  h_arith :: "binary_id \<Rightarrow> float64 \<Rightarrow> float64 \<Rightarrow> float64"
  h_sqrt :: "float64 \<Rightarrow> float64"
  h_regexp_compile :: "string \<Rightarrow> int \<Rightarrow> lre_bytecode option"
  h_lre_get_capture_count :: "lre_bytecode \<Rightarrow> int"
  h_lre_exec :: "lre_bytecode \<Rightarrow> string \<Rightarrow> int"
  h_Call :: "JSValue \<Rightarrow> JSValue \<Rightarrow> JSValue list \<Rightarrow> JSValue"
  h_IsInstanceOf :: "JSValue \<Rightarrow> JSValue \<Rightarrow> int"
  h_GetPrototype :: "JSValue \<Rightarrow> JSValue"
  h_same_object :: "JSValue \<Rightarrow> JSValue \<Rightarrow> bool"
  h_value_equals :: "JSValue \<Rightarrow> JSValue \<Rightarrow> bool"
  h_ValueToAtom :: "JSValue \<Rightarrow> JSAtom"

subsection \<open>Faults\<close>

text \<open>
  The ways an evaluation can leave defined behaviour, as results of their own: a failed
  \<open>assert\<close>; the regular-expression engine entered with a null compiled form; a call
  that reads a slot of the argument vector that was never written; a read from an exhausted
  cursor and a skip by a negative count, which the sources at hand leave open; a Function
  node with a negative arity (a variable-length array of negative size). A script
  exception is not a fault: it is the value \<open>JS_EXCEPTION\<close>.
\<close>

datatype fault =
    AssertionFailed
  | NullBytecode
  | UninitializedArgument
  | CursorUnderflow
  | InvalidShift
  | InvalidArity

subsection \<open>The argument cursor\<close>

text \<open>
  Modelled from the spec: \<open>JSArguments\<close>, \<open>js_arguments_shift\<close> and
  \<open>js_arguments_shiftn\<close> are declared in a header that is not among the sources at hand.
  The cursor is the sequence of arguments not yet read (the code's \<open>args->c\<close> is its
  length, \<open>args->v\<close> its first element); \<open>shift\<close> returns the argument at the read
  position and advances by one. The spec leaves a read past the end open: the model makes
  it the fault \<open>CursorUnderflow\<close>, so that nothing is proved about it.
\<close>

type_synonym JSArguments = "JSValue list"

definition js_arguments_shift :: "JSArguments \<Rightarrow> fault + (JSValue \<times> JSArguments)" where
  "js_arguments_shift args = (case args of [] \<Rightarrow> Inl CursorUnderflow | a # rest \<Rightarrow> Inr (a, rest))"

text \<open>
  Modelled from the spec: \<open>shiftN(n)\<close> advances by \<open>n\<close> without returning anything. A
  negative count or one beyond the remaining arguments is the fault \<open>InvalidShift\<close>.
\<close>

definition js_arguments_shiftn :: "JSArguments \<Rightarrow> int \<Rightarrow> fault + JSArguments" where
  "js_arguments_shiftn args n =
     (if 0 \<le> n \<and> n \<le> int (length args) then Inr (drop (nat n) args) else Inl InvalidShift)"

subsection \<open>Tests and accessors on values\<close>

text \<open>
  Modelled from the spec: \<open>js_is_null_or_undefined\<close> and \<open>js_predicate_data\<close> are
  helpers of the repository that are not among the sources at hand. The first recognises
  the unset operand, the second returns the node of an object of the predicate class and
  null for any other value.
\<close>

definition js_is_null_or_undefined :: "JSValue \<Rightarrow> bool" where
  "js_is_null_or_undefined v = (v = JS_UNDEFINED \<or> v = JS_NULL)"

definition js_predicate_data :: "JSValue \<Rightarrow> Predicate option" where
  "js_predicate_data v = (case v of JS_Predicate pr \<Rightarrow> Some pr | _ \<Rightarrow> None)"

text \<open>
  The tests and accessors of the script runtime on the values of the model. Properties are
  read from plain objects only; arrays, functions and predicate objects have none here.
\<close>

definition JS_IsFunction :: "JSValue \<Rightarrow> bool" where
  "JS_IsFunction v = (case v of JS_Function f \<Rightarrow> True | _ \<Rightarrow> False)"

definition JS_IsArray :: "JSValue \<Rightarrow> bool" where
  "JS_IsArray v = (case v of JS_Array xs \<Rightarrow> True | _ \<Rightarrow> False)"

definition JS_IsObject :: "JSValue \<Rightarrow> bool" where
  "JS_IsObject v = (case v of JS_Object ps \<Rightarrow> True | JS_Array xs \<Rightarrow> True
                     | JS_Function f \<Rightarrow> True | JS_Predicate pr \<Rightarrow> True | _ \<Rightarrow> False)"

definition predicate_is :: "JSValue \<Rightarrow> bool" where
  "predicate_is v = (js_predicate_data v \<noteq> None)"

definition predicate_callable :: "JSValue \<Rightarrow> bool" where
  "predicate_callable v = (predicate_is v \<or> JS_IsFunction v)"

definition JS_GetProperty :: "JSValue \<Rightarrow> JSAtom \<Rightarrow> JSValue" where
  "JS_GetProperty obj atom =
     (case obj of
        JS_Object ps \<Rightarrow> (case map_of ps atom of Some x \<Rightarrow> x | None \<Rightarrow> JS_UNDEFINED)
      | _ \<Rightarrow> JS_UNDEFINED)"

definition JS_HasProperty :: "JSValue \<Rightarrow> JSAtom \<Rightarrow> bool" where
  "JS_HasProperty obj atom =
     (case obj of JS_Object ps \<Rightarrow> map_of ps atom \<noteq> None | _ \<Rightarrow> False)"

text \<open>
  Truthiness as the C code sees it: \<open>JS_ToBool\<close> returns 1, 0, or -1 for the exception
  marker. A double is truthy unless it is a zero or a NaN.
\<close>

definition float64_truthy :: "float64 \<Rightarrow> bool" where
  "float64_truthy d =
     (let m = d AND 0x7FFFFFFFFFFFFFFF in m \<noteq> 0 \<and> m \<le> 0x7FF0000000000000)"

fun JS_ToBool :: "JSValue \<Rightarrow> int" where
  "JS_ToBool JS_UNDEFINED = 0"
| "JS_ToBool JS_NULL = 0"
| "JS_ToBool (JS_EXCEPTION e) = - 1"
| "JS_ToBool (JS_Bool b) = (if b then 1 else 0)"
| "JS_ToBool (JS_Int n) = (if n = 0 then 0 else 1)"
| "JS_ToBool (JS_Float64 d) = (if float64_truthy d then 1 else 0)"
| "JS_ToBool (JS_String s) = (if s = [] then 0 else 1)"
| "JS_ToBool (JS_Object ps) = 1"
| "JS_ToBool (JS_Array xs) = 1"
| "JS_ToBool (JS_Function f) = 1"
| "JS_ToBool (JS_Predicate pr) = 1"

definition JS_NewBool :: "int \<Rightarrow> JSValue" where
  "JS_NewBool x = JS_Bool (x \<noteq> 0)"

text \<open>
  \<open>JS_ToInt64\<close> leaves 0 in its result for the exception marker; \<open>JS_NewInt64\<close>
  makes a 32-bit integer when the number fits and a double otherwise.
\<close>

definition JS_ToInt64 :: "host \<Rightarrow> JSValue \<Rightarrow> 64 word" where
  "JS_ToInt64 h v =
     (case v of
        JS_Int n \<Rightarrow> scast n
      | JS_Bool b \<Rightarrow> (if b then 1 else 0)
      | JS_NULL \<Rightarrow> 0
      | JS_UNDEFINED \<Rightarrow> 0
      | JS_EXCEPTION e \<Rightarrow> 0
      | _ \<Rightarrow> h_ToInt64 h v)"

definition JS_NewInt64 :: "host \<Rightarrow> 64 word \<Rightarrow> JSValue" where
  "JS_NewInt64 h w =
     (if - (2 ^ 31) \<le> sint w \<and> sint w < 2 ^ 31 then JS_Int (ucast w)
      else JS_Float64 (h_NewFloat64_int64 h w))"

subsection \<open>Text and code points\<close>

text \<open>
  Modelled from the spec: \<open>js_input_chars\<close> belongs to a header that is not among the
  sources at hand; it presents an argument as a text value, the bytes of a string as they
  are and any other value through the runtime's conversion to text.
\<close>

definition js_input_chars :: "host \<Rightarrow> JSValue \<Rightarrow> string" where
  "js_input_chars h v = (case v of JS_String s \<Rightarrow> s | _ \<Rightarrow> h_ToCString h v)"

text \<open>
  \<open>utf8_to_unicode\<close>: the loop that decodes a literal into the vector \<open>out\<close>, one
  code point per round, moving on by the bytes the decoder took (at least one).
\<close>

function utf8_to_unicode :: "host \<Rightarrow> string \<Rightarrow> 32 word list \<Rightarrow> 32 word list" where
  "utf8_to_unicode h p out =
     (if p = [] then out
      else (case h_unicode_from_utf8 h p of
              (codepoint, n) \<Rightarrow> utf8_to_unicode h (drop (Suc n) p) (out @ [codepoint])))"
  by pat_completeness auto
termination
  by (relation "measure (\<lambda>(h, p, out). length p)") auto

text \<open>
  Modelled from the spec: \<open>vector_find\<close>, \<open>input_buffer_eof\<close> and
  \<open>input_buffer_getc\<close> are helpers of the repository that are not among the sources at
  hand. \<open>vector_find\<close> gives the index of the first element equal to the one looked for,
  or -1; the input buffer hands out the decoded code points of the argument's text one by
  one until it is at its end.
\<close>

fun vector_find :: "'a list \<Rightarrow> 'a \<Rightarrow> int" where
  "vector_find [] x = - 1"
| "vector_find (y # ys) x =
     (if y = x then 0 else (let i = vector_find ys x in if i = - 1 then - 1 else i + 1))"

definition input_buffer_eof :: "string \<Rightarrow> bool" where
  "input_buffer_eof input = (input = [])"

definition input_buffer_getc :: "host \<Rightarrow> string \<Rightarrow> 32 word \<times> string" where
  "input_buffer_getc h input =
     (case h_unicode_from_utf8 h input of (codepoint, n) \<Rightarrow> (codepoint, drop (Suc n) input))"

text \<open>
  The scan of the Charset case: the result starts as the integer 1 and becomes the integer
  0 at the first code point of the input that is not in the set.
\<close>

function charset_scan :: "host \<Rightarrow> 32 word list \<Rightarrow> string \<Rightarrow> JSValue" where
  "charset_scan h chars input =
     (if input_buffer_eof input then JS_Int 1
      else (case input_buffer_getc h input of
              (codepoint, rest) \<Rightarrow>
                if vector_find chars codepoint = - 1 then JS_Int 0
                else charset_scan h chars rest))"
  by pat_completeness auto
termination
  by (relation "measure (\<lambda>(h, chars, input). length input)")
     (auto simp: input_buffer_eof_def input_buffer_getc_def split: prod.splits)

text \<open>
  The cache of a Charset node after an evaluation: it is filled from the literal when the
  vector is empty (no data and size 0) and left alone otherwise.
\<close>

definition charset_chars :: "host \<Rightarrow> string \<Rightarrow> 32 word list \<Rightarrow> 32 word list" where
  "charset_chars h cset chars = (if chars = [] then utf8_to_unicode h cset [] else chars)"

subsection \<open>Compiling a Regex node\<close>

fun regexp_bytecode :: "Predicate \<Rightarrow> lre_bytecode option" where
  "regexp_bytecode (RegExpPredicate source flags bytecode) = bytecode"
| "regexp_bytecode _ = None"

text \<open>
  \<open>predicate_regexp_compile\<close> asserts that the node is a Regex node without a compiled
  form, stores what the compiler returns and gives the capture count, or 0 when the
  compiler returned null.
\<close>

fun predicate_regexp_compile :: "host \<Rightarrow> Predicate \<Rightarrow> fault + (int \<times> Predicate)" where
  "predicate_regexp_compile h (RegExpPredicate source flags bytecode) =
     (if bytecode \<noteq> None then Inl AssertionFailed
      else (case h_regexp_compile h source flags of
              Some bc \<Rightarrow> Inr (h_lre_get_capture_count h bc, RegExpPredicate source flags (Some bc))
            | None \<Rightarrow> Inr (0, RegExpPredicate source flags None)))"
| "predicate_regexp_compile h _ = Inl AssertionFailed"

subsection \<open>The evaluator\<close>

text \<open>
  The loop of the Function case, \<open>for(i = 0; i < nargs; i++) argv[i++] = shift(args)\<close>:
  the index is incremented in the subscript and again by the loop. A slot of \<open>argv\<close> that
  was never written is \<open>None\<close>.
\<close>

function function_argv ::
  "nat \<Rightarrow> nat \<Rightarrow> JSArguments \<Rightarrow> JSValue option list \<Rightarrow> fault + (JSValue option list \<times> JSArguments)"
where
  "function_argv i nargs args argv =
     (if i < nargs then
        (case js_arguments_shift args of
           Inl e \<Rightarrow> Inl e
         | Inr (a, rest) \<Rightarrow> function_argv (i + 1 + 1) nargs rest (argv[i := Some a]))
      else Inr (argv, args))"
  by pat_completeness auto
termination
  by (relation "measure (\<lambda>(i, nargs, args, argv). nargs - i)") auto

text \<open>
  \<open>predicate_eval\<close>, \<open>predicate_value\<close> and \<open>predicate_call\<close>. Each returns the
  value, the number of cursor positions it consumed (the cursor afterwards is the cursor
  before without that many leading arguments) and the node or operand as the evaluation
  leaves it, with its caches filled. \<open>binary_value\<close> is the body of the loop over the
  two operands of an arithmetic node, \<open>or_loop\<close>, \<open>and_loop\<close> and \<open>xor_loop\<close> are
  the loops of the combinators with their running result. What a callback or a capture
  sink of the Regex case does to objects of the caller is outside the result; so are the
  caches of predicates that arrive as arguments.
\<close>

function
  predicate_eval :: "host \<Rightarrow> Predicate \<Rightarrow> JSArguments \<Rightarrow> fault + (JSValue \<times> nat \<times> Predicate)"
and predicate_value :: "host \<Rightarrow> JSValue \<Rightarrow> JSArguments \<Rightarrow> fault + (JSValue \<times> nat \<times> JSValue)"
and predicate_call :: "host \<Rightarrow> JSValue \<Rightarrow> JSValue list \<Rightarrow> fault + (JSValue \<times> JSValue)"
and binary_value :: "host \<Rightarrow> JSValue \<Rightarrow> JSArguments \<Rightarrow> fault + (JSValue \<times> nat \<times> JSValue)"
and or_loop :: "host \<Rightarrow> JSValue \<Rightarrow> JSValue list \<Rightarrow> JSArguments \<Rightarrow> fault + (JSValue \<times> nat \<times> JSValue list)"
and and_loop :: "host \<Rightarrow> JSValue \<Rightarrow> JSValue list \<Rightarrow> JSArguments \<Rightarrow> fault + (JSValue \<times> nat \<times> JSValue list)"
and xor_loop :: "host \<Rightarrow> 64 word \<Rightarrow> JSValue list \<Rightarrow> JSArguments \<Rightarrow> fault + (64 word \<times> nat \<times> JSValue list)"
where
  "predicate_eval h (TypePredicate flags) args =
     (case js_arguments_shift args of
        Inl e \<Rightarrow> Inl e
      | Inr (a, rest) \<Rightarrow>
          Inr (JS_NewBool (if h_value_type h a AND flags \<noteq> 0 then 1 else 0), 1, TypePredicate flags))"
| "predicate_eval h (CharsetPredicate cset chars) args =
     (case js_arguments_shift args of
        Inl e \<Rightarrow> Inl e
      | Inr (a, rest) \<Rightarrow>
          (let input = js_input_chars h a;
               chars' = charset_chars h cset chars
           in Inr (charset_scan h chars' input, 1, CharsetPredicate cset chars')))"
| "predicate_eval h (StringPredicate str) args =
     (case js_arguments_shift args of
        Inl e \<Rightarrow> Inl e
      | Inr (a, rest) \<Rightarrow>
          (let input = js_input_chars h a
           in Inr (if length input \<ge> length str \<and> take (length str) input = str
                   then JS_Int 1 else JS_UNDEFINED, 1, StringPredicate str)))"
| "predicate_eval h (UnaryPredicate PREDICATE_NOTNOT v) args =
     (case predicate_value h v args of
        Inl e \<Rightarrow> Inl e
      | Inr (r, k, v') \<Rightarrow>
          Inr (JS_NewBool (if JS_ToBool r \<noteq> 0 then 1 else 0), k, UnaryPredicate PREDICATE_NOTNOT v'))"
| "predicate_eval h (UnaryPredicate PREDICATE_NOT v) args =
     (case predicate_value h v args of
        Inl e \<Rightarrow> Inl e
      | Inr (r, k, v') \<Rightarrow>
          Inr (JS_NewBool (if JS_ToBool r = 0 then 1 else 0), k, UnaryPredicate PREDICATE_NOT v'))"
| "predicate_eval h (UnaryPredicate PREDICATE_BNOT v) args =
     (case predicate_value h v args of
        Inl e \<Rightarrow> Inl e
      | Inr (r, k, v') \<Rightarrow>
          Inr (JS_NewInt64 h (NOT (JS_ToInt64 h r)), k, UnaryPredicate PREDICATE_BNOT v'))"
| "predicate_eval h (UnaryPredicate PREDICATE_SQRT v) args =
     (case predicate_value h v args of
        Inl e \<Rightarrow> Inl e
      | Inr (r, k, v') \<Rightarrow>
          Inr (JS_Float64 (h_sqrt h (h_ToFloat64 h r)), k, UnaryPredicate PREDICATE_SQRT v'))"
| "predicate_eval h (BinaryPredicate pid left right) args =
     (case binary_value h left args of
        Inl e \<Rightarrow> Inl e
      | Inr (v0, k0, left') \<Rightarrow>
          (case binary_value h right (drop k0 args) of
             Inl e \<Rightarrow> Inl e
           | Inr (v1, k1, right') \<Rightarrow>
               Inr (JS_Float64 (h_arith h pid (h_ToFloat64 h v0) (h_ToFloat64 h v1)),
                    k0 + k1, BinaryPredicate pid left' right')))"
| "predicate_eval h (BooleanPredicate PREDICATE_OR predicates) args =
     (case or_loop h JS_UNDEFINED predicates args of
        Inl e \<Rightarrow> Inl e
      | Inr (ret, k, predicates') \<Rightarrow> Inr (ret, k, BooleanPredicate PREDICATE_OR predicates'))"
| "predicate_eval h (BooleanPredicate PREDICATE_AND predicates) args =
     (case and_loop h JS_UNDEFINED predicates args of
        Inl e \<Rightarrow> Inl e
      | Inr (ret, k, predicates') \<Rightarrow> Inr (ret, k, BooleanPredicate PREDICATE_AND predicates'))"
| "predicate_eval h (BooleanPredicate PREDICATE_XOR predicates) args =
     (case xor_loop h 0 predicates args of
        Inl e \<Rightarrow> Inl e
      | Inr (r, k, predicates') \<Rightarrow>
          Inr (JS_NewInt64 h r, k, BooleanPredicate PREDICATE_XOR predicates'))"
| "predicate_eval h (RegExpPredicate source flags bytecode) args =
     (case js_arguments_shift args of
        Inl e \<Rightarrow> Inl e
      | Inr (re, rest) \<Rightarrow>
          (let input = js_input_chars h re in
           case (if bytecode = None
                 then predicate_regexp_compile h (RegExpPredicate source flags bytecode)
                 else Inr (0, RegExpPredicate source flags bytecode)) of
             Inl e \<Rightarrow> Inl e
           | Inr (capture_count, pr') \<Rightarrow>
               (case regexp_bytecode pr' of
                  None \<Rightarrow> Inl NullBytecode
                | Some bc \<Rightarrow>
                    (let result = h_lre_exec h bc input in
                     if result \<noteq> 0 \<and> length rest > 1
                     then (case js_arguments_shift rest of
                             Inl e \<Rightarrow> Inl e
                           | Inr (arg, rest') \<Rightarrow> Inr (JS_NewBool result, 2, pr'))
                     else Inr (JS_NewBool result, 1, pr')))))"
| "predicate_eval h (UnaryPredicate PREDICATE_INSTANCEOF v) args =
     (case js_arguments_shift args of
        Inl e \<Rightarrow> Inl e
      | Inr (a, rest) \<Rightarrow>
          Inr (JS_NewBool (h_IsInstanceOf h a v), 1, UnaryPredicate PREDICATE_INSTANCEOF v))"
| "predicate_eval h (UnaryPredicate PREDICATE_PROTOTYPEIS v) args =
     (case js_arguments_shift args of
        Inl e \<Rightarrow> Inl e
      | Inr (a, rest) \<Rightarrow>
          Inr (JS_NewBool (if h_same_object h (h_GetPrototype h a) v then 1 else 0), 1,
               UnaryPredicate PREDICATE_PROTOTYPEIS v))"
| "predicate_eval h (UnaryPredicate PREDICATE_EQUAL v) args =
     (case js_arguments_shift args of
        Inl e \<Rightarrow> Inl e
      | Inr (a, rest) \<Rightarrow>
          Inr (JS_NewBool (if h_value_equals h a v then 1 else 0), 1,
               UnaryPredicate PREDICATE_EQUAL v))"
| "predicate_eval h (PropertyPredicate atom predicate) args =
     (case js_arguments_shift args of
        Inl e \<Rightarrow> Inl e
      | Inr (obj, rest) \<Rightarrow>
          if JS_IsObject obj then
            (let ret = JS_GetProperty obj atom in
             if \<not> js_is_null_or_undefined predicate \<and> predicate_callable predicate
             then (case predicate_call h predicate [ret] of
                     Inl e \<Rightarrow> Inl e
                   | Inr (result, predicate') \<Rightarrow> Inr (result, 1, PropertyPredicate atom predicate'))
             else Inr (ret, 1, PropertyPredicate atom predicate))
          else Inr (JS_EXCEPTION (TypeError (''target must be object, but is '' @ h_value_typestr h obj)),
                    1, PropertyPredicate atom predicate))"
| "predicate_eval h (MemberPredicate object) args =
     (case js_arguments_shift args of
        Inl e \<Rightarrow> Inl e
      | Inr (member, rest) \<Rightarrow>
          (let atom = h_ValueToAtom h member
           in Inr (if JS_HasProperty object atom then JS_GetProperty object atom else JS_UNDEFINED,
                   1, MemberPredicate object)))"
| "predicate_eval h (ShiftPredicate n v) args =
     (if n \<le> int (length args) then
        (case js_arguments_shiftn args n of
           Inl e \<Rightarrow> Inl e
         | Inr rest \<Rightarrow>
             (case predicate_value h v rest of
                Inl e \<Rightarrow> Inl e
              | Inr (r, k, v') \<Rightarrow> Inr (r, nat n + k, ShiftPredicate n v')))
      else Inr (JS_UNDEFINED, 0, ShiftPredicate n v))"
| "predicate_eval h (FunctionPredicate func this_val arity) args =
     (if arity < 0 then Inl InvalidArity
      else (case function_argv 0 (nat arity) args (replicate (nat arity) None) of
              Inl e \<Rightarrow> Inl e
            | Inr (argv, rest) \<Rightarrow>
                if None \<in> set argv then Inl UninitializedArgument
                else Inr (h_Call h func this_val (map the argv), length args - length rest,
                          FunctionPredicate func this_val arity)))"
| "predicate_call h v argv =
     (case v of
        JS_Predicate pr \<Rightarrow>
          (case predicate_eval h pr argv of
             Inl e \<Rightarrow> Inl e
           | Inr (ret, k, pr') \<Rightarrow> Inr (ret, JS_Predicate pr'))
      | JS_Function f \<Rightarrow> Inr (h_Call h v JS_UNDEFINED argv, v)
      | _ \<Rightarrow> Inr (JS_UNDEFINED, v))"
| "predicate_value h v args =
     (case v of
        JS_Predicate pr \<Rightarrow>
          (case predicate_eval h pr args of
             Inl e \<Rightarrow> Inl e
           | Inr (ret, k, pr') \<Rightarrow> Inr (ret, k, JS_Predicate pr'))
      | JS_Function f \<Rightarrow> Inr (h_Call h v JS_UNDEFINED args, 0, v)
      | _ \<Rightarrow> Inr (v, 0, v))"
| "binary_value h v args =
     (if js_is_null_or_undefined v then
        (case js_arguments_shift args of
           Inl e \<Rightarrow> Inl e
         | Inr (a, rest) \<Rightarrow>
             (case predicate_value h a rest of
                Inl e \<Rightarrow> Inl e
              | Inr (r, k, a') \<Rightarrow> Inr (r, 1 + k, v)))
      else predicate_value h v args)"
| "or_loop h ret [] args = Inr (ret, 0, [])"
| "or_loop h ret (v # vs) args =
     (case predicate_value h v args of
        Inl e \<Rightarrow> Inl e
      | Inr (r, k, v') \<Rightarrow>
          if JS_ToBool r \<noteq> 0 then Inr (r, k, v' # vs)
          else (case or_loop h r vs (drop k args) of
                  Inl e \<Rightarrow> Inl e
                | Inr (r', k', vs') \<Rightarrow> Inr (r', k + k', v' # vs')))"
| "and_loop h ret [] args = Inr (ret, 0, [])"
| "and_loop h ret (v # vs) args =
     (case predicate_value h v args of
        Inl e \<Rightarrow> Inl e
      | Inr (r, k, v') \<Rightarrow>
          if JS_ToBool r = 0 then Inr (r, k, v' # vs)
          else (case and_loop h r vs (drop k args) of
                  Inl e \<Rightarrow> Inl e
                | Inr (r', k', vs') \<Rightarrow> Inr (r', k + k', v' # vs')))"
| "xor_loop h r [] args = Inr (r, 0, [])"
| "xor_loop h r (v # vs) args =
     (case predicate_value h v args of
        Inl e \<Rightarrow> Inl e
      | Inr (x, k, v') \<Rightarrow>
          (case xor_loop h (r XOR JS_ToInt64 h x) vs (drop k args) of
             Inl e \<Rightarrow> Inl e
           | Inr (r', k', vs') \<Rightarrow> Inr (r', k + k', v' # vs')))"
  by pat_completeness auto

termination
proof -
  have drop_le: "size_list f (drop k xs) \<le> size_list f xs"
    for f :: "JSValue \<Rightarrow> nat" and k xs
    by (induction xs arbitrary: k)
       (auto simp: drop_Cons split: nat.splits intro: le_SucI trans_le_add2)
  have shift_Inr: "args = a # rest" if "js_arguments_shift args = Inr (a, rest)" for args a rest
    using that by (auto simp: js_arguments_shift_def split: list.splits)
  have shiftn_Inr: "rest = drop (nat n) args" if "js_arguments_shiftn args n = Inr rest"
    for args n rest
    using that by (auto simp: js_arguments_shiftn_def split: if_splits)
  have size_map_of: "size v < size_list (size_prod (\<lambda>x. 0) size) ps + 1"
    if "map_of ps a = Some v" for ps :: "(JSAtom \<times> JSValue) list" and a v
    using that by (induction ps) (auto split: if_splits)
  have size_get: "size (JS_GetProperty obj atom) \<le> size obj" for obj atom
    by (auto simp: JS_GetProperty_def dest!: size_map_of split: JSValue.splits option.splits)
  have bounds:
    "2 * size_list size (drop k args) < Suc (Suc (2 * size_list size args + m))"
    "2 * size_list size (drop k args) < Suc (Suc (2 * size_list size args))"
    "2 * size_list size (drop k args) < Suc (2 * size_list size args + m)"
    "size (JS_GetProperty obj atom) < Suc (size obj + m)"
    for k m obj atom and args :: "JSValue list"
    using drop_le [of size k args] size_get [of obj atom] by linarith+
  show ?thesis
    apply (relation "measure (\<lambda>x. case x of
        Inl (Inl (h, pr, args)) \<Rightarrow> 2 * (size_list size args + size pr)
      | Inl (Inr (Inl (h, v, args))) \<Rightarrow> 2 * (size_list size args + size v)
      | Inl (Inr (Inr (h, v, args))) \<Rightarrow> 2 * (size_list size args + size v)
      | Inr (Inl (Inl (h, v, args))) \<Rightarrow> 2 * (size_list size args + size v) + 1
      | Inr (Inl (Inr (h, r, vs, args))) \<Rightarrow> 2 * (size_list size args + size_list size vs) + 1
      | Inr (Inr (Inl (h, r, vs, args))) \<Rightarrow> 2 * (size_list size args + size_list size vs) + 1
      | Inr (Inr (Inr (h, r, vs, args))) \<Rightarrow> 2 * (size_list size args + size_list size vs) + 1)")
     apply simp
    apply (auto dest!: shift_Inr shiftn_Inr simp: bounds)
    done
qed


subsection \<open>Operands evaluated in order\<close>

text \<open>
  The operands of a list, each resolved by \<open>predicate_value\<close>, one after the other on the
  shared cursor and without stopping early: the results in order, the number of cursor
  positions consumed in total and the operands as they are left. The properties of the
  combinators are stated against it.
\<close>

fun eval_operands ::
  "host \<Rightarrow> JSValue list \<Rightarrow> JSArguments \<Rightarrow> fault + (JSValue list \<times> nat \<times> JSValue list)"
where
  "eval_operands h [] args = Inr ([], 0, [])"
| "eval_operands h (v # vs) args =
     (case predicate_value h v args of
        Inl e \<Rightarrow> Inl e
      | Inr (r, k, v') \<Rightarrow>
          (case eval_operands h vs (drop k args) of
             Inl e \<Rightarrow> Inl e
           | Inr (rs, k', vs') \<Rightarrow> Inr (r # rs, k + k', v' # vs')))"

text \<open>A literal operand that reads nothing from the cursor: neither a predicate nor a function.\<close>

definition pure_literal :: "JSValue \<Rightarrow> bool" where
  "pure_literal v = (\<not> predicate_is v \<and> \<not> JS_IsFunction v)"

subsection \<open>The Xor node as the spec describes it\<close>

text \<open>
  The spec's reading of an Xor node, written out independently of the loops of the
  evaluator, to be compared with them. An operand is resolved as the spec describes the
  threading primitive: a nested predicate node is evaluated against the cursor in progress
  and goes on consuming from it, a plain callable is invoked with whatever arguments remain
  and consumes none, any other value is returned unchanged. \<open>spec_xor_operands\<close>
  resolves every operand, from left to right, each on the cursor the one before has left;
  \<open>spec_xor\<close> converts the results to 64-bit integers and folds them with bitwise
  xor, starting from 0.
\<close>

fun spec_operand :: "host \<Rightarrow> JSValue \<Rightarrow> JSArguments \<Rightarrow> fault + (JSValue \<times> nat \<times> JSValue)" where
  "spec_operand h (JS_Predicate pr) args =
     (case predicate_eval h pr args of
        Inl e \<Rightarrow> Inl e
      | Inr (r, k, pr') \<Rightarrow> Inr (r, k, JS_Predicate pr'))"
| "spec_operand h (JS_Function f) args = Inr (h_Call h (JS_Function f) JS_UNDEFINED args, 0, JS_Function f)"
| "spec_operand h v args = Inr (v, 0, v)"

fun spec_xor_operands ::
  "host \<Rightarrow> JSValue list \<Rightarrow> JSArguments \<Rightarrow> fault + (JSValue list \<times> nat \<times> JSValue list)"
where
  "spec_xor_operands h [] args = Inr ([], 0, [])"
| "spec_xor_operands h (v # vs) args =
     (case spec_operand h v args of
        Inl e \<Rightarrow> Inl e
      | Inr (r, k, v') \<Rightarrow>
          (case spec_xor_operands h vs (drop k args) of
             Inl e \<Rightarrow> Inl e
           | Inr (rs, k', vs') \<Rightarrow> Inr (r # rs, k + k', v' # vs')))"

definition spec_xor :: "host \<Rightarrow> JSValue list \<Rightarrow> JSArguments \<Rightarrow> fault + (JSValue \<times> nat \<times> Predicate)" where
  "spec_xor h vs args =
     (case spec_xor_operands h vs args of
        Inl e \<Rightarrow> Inl e
      | Inr (rs, k, vs') \<Rightarrow>
          Inr (JS_NewInt64 h (fold (\<lambda>x r. r XOR JS_ToInt64 h x) rs 0), k,
               BooleanPredicate PREDICATE_XOR vs'))"

text \<open>
  What an evaluation gives to its caller: the fault, or the value and the number of cursor
  positions consumed.
\<close>

definition outcome :: "fault + (JSValue \<times> nat \<times> Predicate) \<Rightarrow> fault + (JSValue \<times> nat)" where
  "outcome res = (case res of Inl e \<Rightarrow> Inl e | Inr (r, k, pr') \<Rightarrow> Inr (r, k))"

subsection \<open>Counting parameter slots\<close>

text \<open>
  \<open>predicate_recursive_num_args\<close>, the slot count of a node. For the Type, Charset
  and String kinds the code reads \<open>pr->unary.predicate\<close>, a member of the union
  that these kinds do not store; what that read finds depends on the layout of the node in
  memory, so the model takes it as the parameter \<open>u\<close>: whether the bytes of the
  node, read as a value, are null or undefined (they are taken never to read as a predicate
  object). \<open>operand_num_args\<close> is the
  test repeated for every operand slot, \<open>nested_num_args\<close> the loop over the operands
  of a combinator.
\<close>

function
  predicate_recursive_num_args :: "(Predicate \<Rightarrow> bool) \<Rightarrow> Predicate \<Rightarrow> int"
and operand_num_args :: "(Predicate \<Rightarrow> bool) \<Rightarrow> JSValue \<Rightarrow> int"
and nested_num_args :: "(Predicate \<Rightarrow> bool) \<Rightarrow> JSValue list \<Rightarrow> int"
where
  "predicate_recursive_num_args u (TypePredicate flags) =
     (if u (TypePredicate flags) then 1 else 0)"
| "predicate_recursive_num_args u (CharsetPredicate cset chars) =
     (if u (CharsetPredicate cset chars) then 1 else 0)"
| "predicate_recursive_num_args u (StringPredicate str) =
     (if u (StringPredicate str) then 1 else 0)"
| "predicate_recursive_num_args u (UnaryPredicate pid v) = operand_num_args u v"
| "predicate_recursive_num_args u (BinaryPredicate pid left right) =
     operand_num_args u left + operand_num_args u right"
| "predicate_recursive_num_args u (BooleanPredicate pid predicates) = nested_num_args u predicates"
| "predicate_recursive_num_args u (RegExpPredicate source flags bytecode) = 1"
| "predicate_recursive_num_args u (PropertyPredicate atom predicate) =
     (if atom = 0 then 1 else 0) + operand_num_args u predicate"
| "predicate_recursive_num_args u (MemberPredicate object) = 1"
| "predicate_recursive_num_args u (ShiftPredicate n v) = 1"
| "predicate_recursive_num_args u (FunctionPredicate func this_val arity) = arity"
| "operand_num_args u v =
     (if js_is_null_or_undefined v then 1
      else (case js_predicate_data v of
              Some other \<Rightarrow> predicate_recursive_num_args u other
            | None \<Rightarrow> 0))"
| "nested_num_args u [] = 0"
| "nested_num_args u (v # vs) =
     (case js_predicate_data v of
        Some other \<Rightarrow> predicate_recursive_num_args u other
      | None \<Rightarrow> 0) + nested_num_args u vs"
  by pat_completeness auto

termination
  by (relation "measure (\<lambda>x. case x of
        Inl (u, pr) \<Rightarrow> size pr
      | Inr (Inl (u, v)) \<Rightarrow> size v
      | Inr (Inr (u, vs)) \<Rightarrow> size_list size vs)")
     (auto simp: js_predicate_data_def split: JSValue.splits)


subsection \<open>Ownership: clone and free on an explicit store\<close>

text \<open>
  Clone and free are about who owns what, so they are modelled on an explicit store. A node
  structure lives in memory and holds pointers to the buffers it owns and the values it
  references. A stored value is either an immediate or a counted reference to an object of
  the script runtime; the object table gives each object its reference count and what it
  denotes. Memory is allocated at increasing fresh addresses and allocation is taken to
  succeed. A read or a release through a pointer that is not allocated is the fault
  \<open>InvalidPointer\<close>.
\<close>

type_synonym addr = nat

datatype JSRef = Immediate JSValue | Counted addr

text \<open>
  The node structure as the C code lays it out: the kind and the fields of its variant. A
  buffer field is the address of the buffer (with its length beside it), the decoded
  code points of a Charset node and the compiled form of a Regex node are pointers that may
  be null, the operand list of a combinator is a count and the address of an array.
\<close>

datatype CPredicate =
    C_Type "32 word"
  | C_Charset addr nat "addr option"
  | C_String addr nat
  | C_Unary unary_id JSRef
  | C_Binary binary_id JSRef JSRef
  | C_Boolean boolean_id nat addr
  | C_RegExp addr nat int "addr option"
  | C_Property JSAtom JSRef
  | C_Member JSRef
  | C_Shift int JSRef
  | C_Function JSRef JSRef int

datatype block =
    Bytes string
  | Codepoints "32 word list"
  | Bytecode lre_bytecode
  | Values "JSRef list"
  | NodeBlock CPredicate

record JSRuntime =
  memory :: "addr \<rightharpoonup> block"
  next_addr :: addr
  objects :: "addr \<rightharpoonup> nat \<times> JSValue"
  atoms :: "JSAtom \<Rightarrow> nat"





definition JS_DupValue :: "JSRuntime \<Rightarrow> JSRef \<Rightarrow> JSRuntime" where
  "JS_DupValue rt v =
     (case v of
        Immediate x \<Rightarrow> rt
      | Counted a \<Rightarrow>
          (case objects rt a of
             Some (n, x) \<Rightarrow> rt\<lparr>objects := (objects rt)(a \<mapsto> (Suc n, x))\<rparr>
           | None \<Rightarrow> rt))"

definition JS_FreeValueRT :: "JSRuntime \<Rightarrow> JSRef \<Rightarrow> JSRuntime" where
  "JS_FreeValueRT rt v =
     (case v of
        Immediate x \<Rightarrow> rt
      | Counted a \<Rightarrow>
          (case objects rt a of
             Some (n, x) \<Rightarrow>
               if n \<le> 1 then rt\<lparr>objects := (objects rt)(a := None)\<rparr>
               else rt\<lparr>objects := (objects rt)(a \<mapsto> (n - 1, x))\<rparr>
           | None \<Rightarrow> rt))"

definition JS_DupAtom :: "JSRuntime \<Rightarrow> JSAtom \<Rightarrow> JSRuntime" where
  "JS_DupAtom rt atom = rt\<lparr>atoms := (atoms rt)(atom := Suc (atoms rt atom))\<rparr>"

definition JS_FreeAtomRT :: "JSRuntime \<Rightarrow> JSAtom \<Rightarrow> JSRuntime" where
  "JS_FreeAtomRT rt atom = rt\<lparr>atoms := (atoms rt)(atom := atoms rt atom - 1)\<rparr>"
























subsection \<open>A concrete host\<close>

text \<open>
  One possible behaviour of the external collaborators, used to run the model on concrete
  inputs. Text is decoded as UTF-8 (one to four bytes per code point), patterns with an
  unbalanced opening parenthesis do not compile, every compiled pattern matches exactly the
  inputs that start with the letter \<open>a\<close>, and a call returns the array of its arguments.
\<close>

definition example_unicode_from_utf8 :: "string \<Rightarrow> 32 word \<times> nat" where
  "example_unicode_from_utf8 s =
     (case s of
        [] \<Rightarrow> (0, 0)
      | c # cs \<Rightarrow>
          (let b = (of_char c :: 32 word) in
           if b < 0x80 then (b, 0)
           else if b AND 0xE0 = 0xC0 \<and> 1 \<le> length cs then
             (push_bit 6 (b AND 0x1F) OR (of_char (cs ! 0) AND 0x3F), 1)
           else if b AND 0xF0 = 0xE0 \<and> 2 \<le> length cs then
             (push_bit 12 (b AND 0x0F) OR push_bit 6 (of_char (cs ! 0) AND 0x3F)
                OR (of_char (cs ! 1) AND 0x3F), 2)
           else if b AND 0xF8 = 0xF0 \<and> 3 \<le> length cs then
             (push_bit 18 (b AND 0x07) OR push_bit 12 (of_char (cs ! 0) AND 0x3F)
                OR push_bit 6 (of_char (cs ! 1) AND 0x3F) OR (of_char (cs ! 2) AND 0x3F), 3)
           else (0xFFFFFFFF, 0)))"

definition example_host :: host where
  "example_host =
     \<lparr> h_value_type = (\<lambda>v. case v of JS_UNDEFINED \<Rightarrow> 1 | JS_NULL \<Rightarrow> 2 | JS_Bool b \<Rightarrow> 4
                          | JS_Int n \<Rightarrow> 8 | JS_String s \<Rightarrow> 32 | JS_Float64 d \<Rightarrow> 1024
                          | JS_Function f \<Rightarrow> 2048 | JS_Array xs \<Rightarrow> 4096 | _ \<Rightarrow> 16),
       h_value_typestr = (\<lambda>v. case v of JS_Int n \<Rightarrow> ''int'' | JS_String s \<Rightarrow> ''string''
                          | _ \<Rightarrow> ''value''),
       h_unicode_from_utf8 = example_unicode_from_utf8,
       h_ToCString = (\<lambda>v. []),
       h_ToFloat64 = (\<lambda>v. 0),
       h_ToInt64 = (\<lambda>v. 0),
       h_NewFloat64_int64 = (\<lambda>w. 0),
       h_arith = (\<lambda>pid a b. 0),
       h_sqrt = (\<lambda>a. a),
       h_regexp_compile = (\<lambda>source flags. if source = ''('' then None else Some [1]),
       h_lre_get_capture_count = (\<lambda>bc. 1),
       h_lre_exec = (\<lambda>bc input. if take 1 input = ''a'' then 1 else 0),
       h_Call = (\<lambda>func this_val argv. JS_Array argv),
       h_IsInstanceOf = (\<lambda>a b. 0),
       h_GetPrototype = (\<lambda>a. JS_NULL),
       h_same_object = (\<lambda>a b. a = b),
       h_value_equals = (\<lambda>a b. a = b),
       h_ValueToAtom = (\<lambda>v. case v of JS_Int n \<Rightarrow> n | _ \<Rightarrow> 0) \<rparr>"

section \<open>Verified properties\<close>

declare utf8_to_unicode.simps [simp del] charset_scan.simps [simp del]

subsection \<open>Shift nodes on a short cursor\<close>

text \<open>
  C10. A Shift node with skip count \<open>n\<close> evaluated on a cursor that holds fewer than \<open>n\<close>
  arguments returns the undefined marker. It raises no failure, it does not advance the
  cursor (zero positions consumed), and the wrapped operand is not evaluated: the node comes
  back unchanged and the result is the same whatever the operand is.
\<close>

theorem shift_short_cursor_undefined:
  "int (length args) < n \<Longrightarrow>
     predicate_eval h (ShiftPredicate n v) args = Inr (JS_UNDEFINED, 0, ShiftPredicate n v)"
  by simp

theorem shift_short_cursor_undefined_witness:
  "int (length [JS_Int 7]) < 2 \<and>
   predicate_eval example_host
     (ShiftPredicate 2 (JS_Predicate (UnaryPredicate PREDICATE_EQUAL (JS_Int 7)))) [JS_Int 7]
   = Inr (JS_UNDEFINED, 0, ShiftPredicate 2 (JS_Predicate (UnaryPredicate PREDICATE_EQUAL (JS_Int 7))))"
  using shift_short_cursor_undefined
    [of "[JS_Int 7]" 2 example_host "JS_Predicate (UnaryPredicate PREDICATE_EQUAL (JS_Int 7))"]
  by simp

subsection \<open>Regex nodes whose pattern does not compile\<close>

text \<open>
  C1. The claim asks that a Regex node whose pattern fails to compile surfaces a
  CompileFailure and never reaches the regex engine. The evaluator does not test the
  outcome of the lazy compilation: with the cache still null it goes on to
  \<open>lre_exec\<close>, which the model records as the fault \<open>NullBytecode\<close> (the engine is
  entered with a null compiled form). The theorem evaluates the code at every such node.
\<close>

theorem regexp_compile_failure_reaches_exec:
  "h_regexp_compile h source flags = None \<Longrightarrow>
     predicate_eval h (RegExpPredicate source flags None) (a # args) = Inl NullBytecode"
  by (simp add: js_arguments_shift_def)

theorem regexp_compile_failure_reaches_exec_witness:
  "h_regexp_compile example_host ''('' 0 = None \<and>
   predicate_eval example_host (RegExpPredicate ''('' 0 None) [JS_String ''abc''] = Inl NullBytecode"
  using regexp_compile_failure_reaches_exec [of example_host "''(''" 0 "JS_String ''abc''" "[]"]
  by (simp add: example_host_def)

subsection \<open>Function nodes\<close>

text \<open>
  C2. The claim asks that a Function node of arity \<open>k\<close> pulls exactly \<open>k\<close> arguments
  and passes them in order. The loop that fills the argument vector increments its index
  twice per round, so a node of arity two on the cursor \<open>[a, b]\<close> pulls only \<open>a\<close>,
  leaves \<open>b\<close> on the cursor and leaves slot one of the vector unwritten; the call then
  reads an unwritten slot, which the model records as the fault
  \<open>UninitializedArgument\<close>.
\<close>

theorem function_arity_two_pulls_one:
  "function_argv 0 2 [a, b] [None, None] = Inr ([Some a, None], [b]) \<and>
   predicate_eval h (FunctionPredicate func this_val 2) [a, b] = Inl UninitializedArgument"
  by (simp add: js_arguments_shift_def numeral_2_eq_2)

subsection \<open>Lazy compilation of Regex nodes\<close>

lemma js_input_chars_compile_irrelevant:
  "js_input_chars (h\<lparr>h_regexp_compile := c, h_lre_get_capture_count := n\<rparr>) v = js_input_chars h v"
  by (simp add: js_input_chars_def split: JSValue.splits)

lemma regexp_eval_compiled:
  "predicate_eval h (RegExpPredicate source flags (Some bc)) (a # args) =
     Inr (JS_NewBool (h_lre_exec h bc (js_input_chars h a)),
          if h_lre_exec h bc (js_input_chars h a) \<noteq> 0 \<and> length args > 1 then 2 else 1,
          RegExpPredicate source flags (Some bc))"
  by (cases args) (simp_all add: js_arguments_shift_def Let_def)

lemma regexp_eval_no_recompile:
  "predicate_eval (h\<lparr>h_regexp_compile := c, h_lre_get_capture_count := n\<rparr>)
       (RegExpPredicate source flags (Some bc)) args
     = predicate_eval h (RegExpPredicate source flags (Some bc)) args"
proof (cases args)
  case Nil
  then show ?thesis by (simp add: js_arguments_shift_def)
next
  case (Cons a rest)
  then show ?thesis
    by (simp only: regexp_eval_compiled js_input_chars_compile_irrelevant) simp
qed

lemma regexp_eval_first_use:
  "h_regexp_compile h source flags = Some bc \<Longrightarrow>
     predicate_eval h (RegExpPredicate source flags None) (a # args) =
       Inr (JS_NewBool (h_lre_exec h bc (js_input_chars h a)),
            if h_lre_exec h bc (js_input_chars h a) \<noteq> 0 \<and> length args > 1 then 2 else 1,
            RegExpPredicate source flags (Some bc))"
  by (cases args) (simp_all add: js_arguments_shift_def Let_def)

text \<open>
  C5, as stated, fails: \<open>predicate_regexp_compile\<close> asserts that the node is not yet
  compiled, so a second call on the same node stops at the assertion instead of succeeding.
\<close>

theorem regexp_compile_twice_counterexample:
  "predicate_regexp_compile example_host (RegExpPredicate ''a'' 0 None)
     = Inr (1, RegExpPredicate ''a'' 0 (Some [1])) \<and>
   predicate_regexp_compile example_host (RegExpPredicate ''a'' 0 (Some [1]))
     = Inl AssertionFailed"
  by (simp add: example_host_def)

text \<open>
  C5, amended. \<open>predicate_regexp_compile\<close> forces the compilation of a node that is not
  yet compiled and stores the compiled form; on a node that is already compiled it stops
  at its assertion and changes nothing. Evaluation compiles on first use only: evaluating a
  node that holds a compiled form succeeds, keeps exactly that form, and does not depend on
  the compiler at all, so a compiled form is never overwritten.
\<close>

theorem regexp_compile_once:
  "predicate_regexp_compile h (RegExpPredicate source flags None) =
     Inr (case h_regexp_compile h source flags of
            Some bc' \<Rightarrow> (h_lre_get_capture_count h bc', RegExpPredicate source flags (Some bc'))
          | None \<Rightarrow> (0, RegExpPredicate source flags None)) \<and>
   predicate_regexp_compile h (RegExpPredicate source flags (Some bc)) = Inl AssertionFailed \<and>
   (h_regexp_compile h source flags = Some bc \<longrightarrow>
      (\<exists>r k. predicate_eval h (RegExpPredicate source flags None) (a # args)
               = Inr (r, k, RegExpPredicate source flags (Some bc)))) \<and>
   (\<exists>r k. predicate_eval h (RegExpPredicate source flags (Some bc)) (a # args)
            = Inr (r, k, RegExpPredicate source flags (Some bc))) \<and>
   predicate_eval (h\<lparr>h_regexp_compile := c, h_lre_get_capture_count := n\<rparr>)
       (RegExpPredicate source flags (Some bc)) args
     = predicate_eval h (RegExpPredicate source flags (Some bc)) args"
proof (intro conjI impI)
  show "predicate_regexp_compile h (RegExpPredicate source flags None) =
     Inr (case h_regexp_compile h source flags of
            Some bc' \<Rightarrow> (h_lre_get_capture_count h bc', RegExpPredicate source flags (Some bc'))
          | None \<Rightarrow> (0, RegExpPredicate source flags None))"
    by (simp split: option.splits)
  show "predicate_regexp_compile h (RegExpPredicate source flags (Some bc)) = Inl AssertionFailed"
    by simp
  show "\<exists>r k. predicate_eval h (RegExpPredicate source flags None) (a # args)
               = Inr (r, k, RegExpPredicate source flags (Some bc))"
    if "h_regexp_compile h source flags = Some bc"
    using regexp_eval_first_use [OF that] by blast
  show "\<exists>r k. predicate_eval h (RegExpPredicate source flags (Some bc)) (a # args)
            = Inr (r, k, RegExpPredicate source flags (Some bc))"
    using regexp_eval_compiled by blast
  show "predicate_eval (h\<lparr>h_regexp_compile := c, h_lre_get_capture_count := n\<rparr>)
       (RegExpPredicate source flags (Some bc)) args
     = predicate_eval h (RegExpPredicate source flags (Some bc)) args"
    by (rule regexp_eval_no_recompile)
qed

theorem regexp_compile_once_witness:
  "h_regexp_compile example_host ''a+'' 0 = Some [1] \<and>
   predicate_regexp_compile example_host (RegExpPredicate ''a+'' 0 None)
     = Inr (1, RegExpPredicate ''a+'' 0 (Some [1])) \<and>
   predicate_regexp_compile example_host (RegExpPredicate ''a+'' 0 (Some [1])) = Inl AssertionFailed \<and>
   predicate_eval example_host (RegExpPredicate ''a+'' 0 None) [JS_String ''aa'']
     = Inr (JS_Bool True, 1, RegExpPredicate ''a+'' 0 (Some [1])) \<and>
   predicate_eval example_host (RegExpPredicate ''a+'' 0 (Some [1])) [JS_String ''aa'']
     = Inr (JS_Bool True, 1, RegExpPredicate ''a+'' 0 (Some [1]))"
  using regexp_compile_once [of example_host "''a+''" 0 "[1]" "JS_String ''aa''" "[]"]
  by (simp add: example_host_def js_arguments_shift_def js_input_chars_def JS_NewBool_def)

subsection \<open>Property nodes\<close>

text \<open>
  C8. A Property node consumes one argument. When the argument is not an object the
  evaluation returns normally with the exception marker carrying a TypeError (a recoverable
  failure, not a fault). Otherwise the named property is read; with no post-filter, or one
  that is neither a predicate nor a function, the read value is the result; with a function
  as post-filter the result is that function called on the read value alone; with a
  predicate as post-filter the result is that predicate evaluated on a fresh one-argument
  cursor holding the read value.
\<close>

theorem property_eval:
  "(\<not> JS_IsObject obj \<longrightarrow>
      predicate_eval h (PropertyPredicate atom p) (obj # args)
        = Inr (JS_EXCEPTION (TypeError (''target must be object, but is '' @ h_value_typestr h obj)),
               1, PropertyPredicate atom p)) \<and>
   (JS_IsObject obj \<and> (js_is_null_or_undefined p \<or> \<not> predicate_callable p) \<longrightarrow>
      predicate_eval h (PropertyPredicate atom p) (obj # args)
        = Inr (JS_GetProperty obj atom, 1, PropertyPredicate atom p)) \<and>
   (JS_IsObject obj \<longrightarrow>
      predicate_eval h (PropertyPredicate atom (JS_Function f)) (obj # args)
        = Inr (h_Call h (JS_Function f) JS_UNDEFINED [JS_GetProperty obj atom],
               1, PropertyPredicate atom (JS_Function f))) \<and>
   (JS_IsObject obj \<longrightarrow>
      predicate_eval h (PropertyPredicate atom (JS_Predicate q)) (obj # args)
        = (case predicate_eval h q [JS_GetProperty obj atom] of
             Inl e \<Rightarrow> Inl e
           | Inr (r, k, q') \<Rightarrow> Inr (r, 1, PropertyPredicate atom (JS_Predicate q'))))"
  by (auto simp: js_arguments_shift_def Let_def js_is_null_or_undefined_def predicate_callable_def
        predicate_is_def js_predicate_data_def JS_IsFunction_def split: sum.splits JSValue.splits)

theorem property_eval_witness:
  "\<not> JS_IsObject (JS_Int 3) \<and>
   predicate_eval example_host (PropertyPredicate 1 JS_UNDEFINED) [JS_Int 3]
     = Inr (JS_EXCEPTION (TypeError ''target must be object, but is int''), 1,
            PropertyPredicate 1 JS_UNDEFINED) \<and>
   JS_IsObject (JS_Object [(1, JS_Int 5)]) \<and>
   js_is_null_or_undefined JS_UNDEFINED \<and>
   predicate_eval example_host (PropertyPredicate 1 JS_UNDEFINED) [JS_Object [(1, JS_Int 5)]]
     = Inr (JS_Int 5, 1, PropertyPredicate 1 JS_UNDEFINED) \<and>
   predicate_eval example_host (PropertyPredicate 1 (JS_Function 0)) [JS_Object [(1, JS_Int 5)]]
     = Inr (JS_Array [JS_Int 5], 1, PropertyPredicate 1 (JS_Function 0)) \<and>
   predicate_eval example_host
       (PropertyPredicate 1 (JS_Predicate (UnaryPredicate PREDICATE_EQUAL (JS_Int 5))))
       [JS_Object [(1, JS_Int 5)]]
     = Inr (JS_Bool True, 1,
            PropertyPredicate 1 (JS_Predicate (UnaryPredicate PREDICATE_EQUAL (JS_Int 5))))"
  using property_eval [where obj = "JS_Int 3" and h = example_host and atom = 1
          and p = JS_UNDEFINED and args = "[]"]
        property_eval [where obj = "JS_Object [(1, JS_Int 5)]" and h = example_host and atom = 1
          and p = JS_UNDEFINED and args = "[]" and f = 0
          and q = "UnaryPredicate PREDICATE_EQUAL (JS_Int 5)"]
  by (simp add: example_host_def JS_IsObject_def js_is_null_or_undefined_def JS_GetProperty_def
        js_arguments_shift_def JS_NewBool_def)

subsection \<open>Charset nodes\<close>






lemma utf8_to_unicode_Nil [simp]: "utf8_to_unicode h [] out = out"
  by (simp add: utf8_to_unicode.simps)






subsection \<open>Or and And nodes\<close>

lemma or_loop_stops:
  "eval_operands h pre args = Inr (rs, k, pre') \<Longrightarrow> \<forall>r\<in>set rs. JS_ToBool r = 0 \<Longrightarrow>
   predicate_value h x (drop k args) = Inr (r, j, x') \<Longrightarrow> JS_ToBool r \<noteq> 0 \<Longrightarrow>
   or_loop h ret (pre @ x # post) args = Inr (r, k + j, pre' @ x' # post)"
proof (induction pre arbitrary: args rs k pre' ret)
  case Nil
  then show ?case by simp
next
  case (Cons v vs)
  from Cons.prems(1) obtain r0 k0 v0 rs1 k1 vs1 where
    v: "predicate_value h v args = Inr (r0, k0, v0)" and
    rest: "eval_operands h vs (drop k0 args) = Inr (rs1, k1, vs1)" and
    eqs: "rs = r0 # rs1" "k = k0 + k1" "pre' = v0 # vs1"
    by (auto split: sum.splits)
  have falsy: "JS_ToBool r0 = 0" "\<forall>r\<in>set rs1. JS_ToBool r = 0"
    using Cons.prems(2) eqs by auto
  have x: "predicate_value h x (drop k1 (drop k0 args)) = Inr (r, j, x')"
    using Cons.prems(3) eqs by (simp add: add.commute)
  have "or_loop h r0 (vs @ x # post) (drop k0 args) = Inr (r, k1 + j, vs1 @ x' # post)"
    by (rule Cons.IH [OF rest falsy(2) x Cons.prems(4)])
  then show ?case using v falsy(1) eqs by simp
qed

lemma or_loop_all_falsy:
  "eval_operands h vs args = Inr (rs, k, vs') \<Longrightarrow> \<forall>r\<in>set rs. JS_ToBool r = 0 \<Longrightarrow>
   or_loop h ret vs args = Inr (last (ret # rs), k, vs')"
proof (induction vs arbitrary: args rs k vs' ret)
  case Nil
  then show ?case by simp
next
  case (Cons v vs)
  from Cons.prems(1) obtain r0 k0 v0 rs1 k1 vs1 where
    v: "predicate_value h v args = Inr (r0, k0, v0)" and
    rest: "eval_operands h vs (drop k0 args) = Inr (rs1, k1, vs1)" and
    eqs: "rs = r0 # rs1" "k = k0 + k1" "vs' = v0 # vs1"
    by (auto split: sum.splits)
  have falsy: "JS_ToBool r0 = 0" "\<forall>r\<in>set rs1. JS_ToBool r = 0"
    using Cons.prems(2) eqs by auto
  have "or_loop h r0 vs (drop k0 args) = Inr (last (r0 # rs1), k1, vs1)"
    by (rule Cons.IH [OF rest falsy(2)])
  then show ?case using v falsy(1) eqs by simp
qed

lemma and_loop_stops:
  "eval_operands h pre args = Inr (rs, k, pre') \<Longrightarrow> \<forall>r\<in>set rs. JS_ToBool r \<noteq> 0 \<Longrightarrow>
   predicate_value h x (drop k args) = Inr (r, j, x') \<Longrightarrow> JS_ToBool r = 0 \<Longrightarrow>
   and_loop h ret (pre @ x # post) args = Inr (r, k + j, pre' @ x' # post)"
proof (induction pre arbitrary: args rs k pre' ret)
  case Nil
  then show ?case by simp
next
  case (Cons v vs)
  from Cons.prems(1) obtain r0 k0 v0 rs1 k1 vs1 where
    v: "predicate_value h v args = Inr (r0, k0, v0)" and
    rest: "eval_operands h vs (drop k0 args) = Inr (rs1, k1, vs1)" and
    eqs: "rs = r0 # rs1" "k = k0 + k1" "pre' = v0 # vs1"
    by (auto split: sum.splits)
  have truthy: "JS_ToBool r0 \<noteq> 0" "\<forall>r\<in>set rs1. JS_ToBool r \<noteq> 0"
    using Cons.prems(2) eqs by auto
  have x: "predicate_value h x (drop k1 (drop k0 args)) = Inr (r, j, x')"
    using Cons.prems(3) eqs by (simp add: add.commute)
  have "and_loop h r0 (vs @ x # post) (drop k0 args) = Inr (r, k1 + j, vs1 @ x' # post)"
    by (rule Cons.IH [OF rest truthy(2) x Cons.prems(4)])
  then show ?case using v truthy(1) eqs by simp
qed

lemma and_loop_all_truthy:
  "eval_operands h vs args = Inr (rs, k, vs') \<Longrightarrow> \<forall>r\<in>set rs. JS_ToBool r \<noteq> 0 \<Longrightarrow>
   and_loop h ret vs args = Inr (last (ret # rs), k, vs')"
proof (induction vs arbitrary: args rs k vs' ret)
  case Nil
  then show ?case by simp
next
  case (Cons v vs)
  from Cons.prems(1) obtain r0 k0 v0 rs1 k1 vs1 where
    v: "predicate_value h v args = Inr (r0, k0, v0)" and
    rest: "eval_operands h vs (drop k0 args) = Inr (rs1, k1, vs1)" and
    eqs: "rs = r0 # rs1" "k = k0 + k1" "vs' = v0 # vs1"
    by (auto split: sum.splits)
  have truthy: "JS_ToBool r0 \<noteq> 0" "\<forall>r\<in>set rs1. JS_ToBool r \<noteq> 0"
    using Cons.prems(2) eqs by auto
  have "and_loop h r0 vs (drop k0 args) = Inr (last (r0 # rs1), k1, vs1)"
    by (rule Cons.IH [OF rest truthy(2)])
  then show ?case using v truthy(1) eqs by simp
qed

text \<open>
  C4. Write the operand list of an Or node as \<open>pre @ x # post\<close>. If the operands of
  \<open>pre\<close>, evaluated one after the other on the shared cursor, all give falsy results
  and \<open>x\<close>, evaluated on the cursor they leave behind, gives a truthy result, then the
  node returns the result of \<open>x\<close>, the cursor has advanced by what \<open>pre\<close> and
  \<open>x\<close> consumed and no further, and the operands of \<open>post\<close> come back untouched:
  they are not evaluated, whatever they are. If every operand gives a falsy result, the node
  returns the last result (the undefined marker when the list is empty). An And node does
  the same with truthy and falsy exchanged. Truthy means that \<open>JS_ToBool\<close> is not 0.
\<close>

theorem or_and_short_circuit:
  "(eval_operands h pre args = Inr (rs, k, pre') \<and> list_all (\<lambda>r. JS_ToBool r = 0) rs \<and>
    predicate_value h x (drop k args) = Inr (r, j, x') \<and> JS_ToBool r \<noteq> 0 \<longrightarrow>
      predicate_eval h (BooleanPredicate PREDICATE_OR (pre @ x # post)) args
        = Inr (r, k + j, BooleanPredicate PREDICATE_OR (pre' @ x' # post))) \<and>
   (eval_operands h vs args = Inr (rs, k, vs') \<and> list_all (\<lambda>r. JS_ToBool r = 0) rs \<longrightarrow>
      predicate_eval h (BooleanPredicate PREDICATE_OR vs) args
        = Inr (last (JS_UNDEFINED # rs), k, BooleanPredicate PREDICATE_OR vs')) \<and>
   (eval_operands h pre args = Inr (rs, k, pre') \<and> list_all (\<lambda>r. JS_ToBool r \<noteq> 0) rs \<and>
    predicate_value h x (drop k args) = Inr (r, j, x') \<and> JS_ToBool r = 0 \<longrightarrow>
      predicate_eval h (BooleanPredicate PREDICATE_AND (pre @ x # post)) args
        = Inr (r, k + j, BooleanPredicate PREDICATE_AND (pre' @ x' # post))) \<and>
   (eval_operands h vs args = Inr (rs, k, vs') \<and> list_all (\<lambda>r. JS_ToBool r \<noteq> 0) rs \<longrightarrow>
      predicate_eval h (BooleanPredicate PREDICATE_AND vs) args
        = Inr (last (JS_UNDEFINED # rs), k, BooleanPredicate PREDICATE_AND vs'))"
proof (intro conjI impI)
  assume a: "eval_operands h pre args = Inr (rs, k, pre') \<and> list_all (\<lambda>r. JS_ToBool r = 0) rs \<and>
    predicate_value h x (drop k args) = Inr (r, j, x') \<and> JS_ToBool r \<noteq> 0"
  then have "or_loop h JS_UNDEFINED (pre @ x # post) args = Inr (r, k + j, pre' @ x' # post)"
    by (intro or_loop_stops) (auto simp: list_all_iff)
  then show "predicate_eval h (BooleanPredicate PREDICATE_OR (pre @ x # post)) args
        = Inr (r, k + j, BooleanPredicate PREDICATE_OR (pre' @ x' # post))"
    by simp
next
  assume a: "eval_operands h vs args = Inr (rs, k, vs') \<and> list_all (\<lambda>r. JS_ToBool r = 0) rs"
  then have "or_loop h JS_UNDEFINED vs args = Inr (last (JS_UNDEFINED # rs), k, vs')"
    by (intro or_loop_all_falsy) (auto simp: list_all_iff)
  then show "predicate_eval h (BooleanPredicate PREDICATE_OR vs) args
        = Inr (last (JS_UNDEFINED # rs), k, BooleanPredicate PREDICATE_OR vs')"
    by simp
next
  assume a: "eval_operands h pre args = Inr (rs, k, pre') \<and> list_all (\<lambda>r. JS_ToBool r \<noteq> 0) rs \<and>
    predicate_value h x (drop k args) = Inr (r, j, x') \<and> JS_ToBool r = 0"
  then have "and_loop h JS_UNDEFINED (pre @ x # post) args = Inr (r, k + j, pre' @ x' # post)"
    by (intro and_loop_stops) (auto simp: list_all_iff)
  then show "predicate_eval h (BooleanPredicate PREDICATE_AND (pre @ x # post)) args
        = Inr (r, k + j, BooleanPredicate PREDICATE_AND (pre' @ x' # post))"
    by simp
next
  assume a: "eval_operands h vs args = Inr (rs, k, vs') \<and> list_all (\<lambda>r. JS_ToBool r \<noteq> 0) rs"
  then have "and_loop h JS_UNDEFINED vs args = Inr (last (JS_UNDEFINED # rs), k, vs')"
    by (intro and_loop_all_truthy) (auto simp: list_all_iff)
  then show "predicate_eval h (BooleanPredicate PREDICATE_AND vs) args
        = Inr (last (JS_UNDEFINED # rs), k, BooleanPredicate PREDICATE_AND vs')"
    by simp
qed

theorem or_and_short_circuit_witness:
  "predicate_eval example_host
     (BooleanPredicate PREDICATE_OR
        [JS_Predicate (UnaryPredicate PREDICATE_EQUAL (JS_Int 1)),
         JS_Predicate (UnaryPredicate PREDICATE_EQUAL (JS_Int 2)),
         JS_Predicate (UnaryPredicate PREDICATE_EQUAL (JS_Int 3))])
     [JS_Int 9, JS_Int 2, JS_Int 3]
   = Inr (JS_Bool True, 2,
       BooleanPredicate PREDICATE_OR
        [JS_Predicate (UnaryPredicate PREDICATE_EQUAL (JS_Int 1)),
         JS_Predicate (UnaryPredicate PREDICATE_EQUAL (JS_Int 2)),
         JS_Predicate (UnaryPredicate PREDICATE_EQUAL (JS_Int 3))]) \<and>
   predicate_eval example_host
     (BooleanPredicate PREDICATE_OR
        [JS_Predicate (UnaryPredicate PREDICATE_EQUAL (JS_Int 1)),
         JS_Predicate (UnaryPredicate PREDICATE_EQUAL (JS_Int 2))])
     [JS_Int 9, JS_Int 9]
   = Inr (JS_Bool False, 2,
       BooleanPredicate PREDICATE_OR
        [JS_Predicate (UnaryPredicate PREDICATE_EQUAL (JS_Int 1)),
         JS_Predicate (UnaryPredicate PREDICATE_EQUAL (JS_Int 2))]) \<and>
   predicate_eval example_host
     (BooleanPredicate PREDICATE_AND
        [JS_Predicate (UnaryPredicate PREDICATE_EQUAL (JS_Int 1)),
         JS_Predicate (UnaryPredicate PREDICATE_EQUAL (JS_Int 2)),
         JS_Predicate (UnaryPredicate PREDICATE_EQUAL (JS_Int 3))])
     [JS_Int 1, JS_Int 9, JS_Int 3]
   = Inr (JS_Bool False, 2,
       BooleanPredicate PREDICATE_AND
        [JS_Predicate (UnaryPredicate PREDICATE_EQUAL (JS_Int 1)),
         JS_Predicate (UnaryPredicate PREDICATE_EQUAL (JS_Int 2)),
         JS_Predicate (UnaryPredicate PREDICATE_EQUAL (JS_Int 3))]) \<and>
   predicate_eval example_host
     (BooleanPredicate PREDICATE_AND
        [JS_Predicate (UnaryPredicate PREDICATE_EQUAL (JS_Int 1)),
         JS_Predicate (UnaryPredicate PREDICATE_EQUAL (JS_Int 2))])
     [JS_Int 1, JS_Int 2]
   = Inr (JS_Bool True, 2,
       BooleanPredicate PREDICATE_AND
        [JS_Predicate (UnaryPredicate PREDICATE_EQUAL (JS_Int 1)),
         JS_Predicate (UnaryPredicate PREDICATE_EQUAL (JS_Int 2))])"
  using
    or_and_short_circuit [where h = example_host
      and pre = "[JS_Predicate (UnaryPredicate PREDICATE_EQUAL (JS_Int 1))]"
      and x = "JS_Predicate (UnaryPredicate PREDICATE_EQUAL (JS_Int 2))"
      and post = "[JS_Predicate (UnaryPredicate PREDICATE_EQUAL (JS_Int 3))]"
      and args = "[JS_Int 9, JS_Int 2, JS_Int 3]"
      and rs = "[JS_Bool False]" and k = 1
      and pre' = "[JS_Predicate (UnaryPredicate PREDICATE_EQUAL (JS_Int 1))]"
      and r = "JS_Bool True" and j = 1
      and x' = "JS_Predicate (UnaryPredicate PREDICATE_EQUAL (JS_Int 2))"]
    or_and_short_circuit [where h = example_host
      and vs = "[JS_Predicate (UnaryPredicate PREDICATE_EQUAL (JS_Int 1)),
                 JS_Predicate (UnaryPredicate PREDICATE_EQUAL (JS_Int 2))]"
      and args = "[JS_Int 9, JS_Int 9]"
      and rs = "[JS_Bool False, JS_Bool False]" and k = 2
      and vs' = "[JS_Predicate (UnaryPredicate PREDICATE_EQUAL (JS_Int 1)),
                  JS_Predicate (UnaryPredicate PREDICATE_EQUAL (JS_Int 2))]"]
    or_and_short_circuit [where h = example_host
      and pre = "[JS_Predicate (UnaryPredicate PREDICATE_EQUAL (JS_Int 1))]"
      and x = "JS_Predicate (UnaryPredicate PREDICATE_EQUAL (JS_Int 2))"
      and post = "[JS_Predicate (UnaryPredicate PREDICATE_EQUAL (JS_Int 3))]"
      and args = "[JS_Int 1, JS_Int 9, JS_Int 3]"
      and rs = "[JS_Bool True]" and k = 1
      and pre' = "[JS_Predicate (UnaryPredicate PREDICATE_EQUAL (JS_Int 1))]"
      and r = "JS_Bool False" and j = 1
      and x' = "JS_Predicate (UnaryPredicate PREDICATE_EQUAL (JS_Int 2))"]
    or_and_short_circuit [where h = example_host
      and vs = "[JS_Predicate (UnaryPredicate PREDICATE_EQUAL (JS_Int 1)),
                 JS_Predicate (UnaryPredicate PREDICATE_EQUAL (JS_Int 2))]"
      and args = "[JS_Int 1, JS_Int 2]"
      and rs = "[JS_Bool True, JS_Bool True]" and k = 2
      and vs' = "[JS_Predicate (UnaryPredicate PREDICATE_EQUAL (JS_Int 1)),
                  JS_Predicate (UnaryPredicate PREDICATE_EQUAL (JS_Int 2))]"]
  by (simp add: example_host_def js_arguments_shift_def JS_NewBool_def)

subsection \<open>Xor nodes\<close>

lemma spec_operand_literal: "pure_literal v \<Longrightarrow> spec_operand h v args = Inr (v, 0, v)"
  by (cases v)
     (simp_all add: pure_literal_def predicate_is_def js_predicate_data_def JS_IsFunction_def)

lemma xor_fold_acc:
  "fold (\<lambda>x r. r XOR JS_ToInt64 h x) xs (acc XOR y) = fold (\<lambda>x r. r XOR JS_ToInt64 h x) xs acc XOR y"
proof (induction xs arbitrary: acc)
  case Nil
  show ?case by simp
next
  case (Cons a xs)
  have "(acc XOR y) XOR JS_ToInt64 h a = (acc XOR JS_ToInt64 h a) XOR y" by (simp add: ac_simps)
  then show ?case using Cons [of "acc XOR JS_ToInt64 h a"] by simp
qed

lemma xor_fold_permuted:
  "mset rs = mset rs' \<Longrightarrow>
   fold (\<lambda>x r. r XOR JS_ToInt64 h x) rs acc = fold (\<lambda>x r. r XOR JS_ToInt64 h x) rs' acc"
proof -
  assume m: "mset rs = mset rs'"
  have "fold (\<lambda>x r. r XOR JS_ToInt64 h x) rs = fold (\<lambda>x r. r XOR JS_ToInt64 h x) rs'"
    by (rule fold_multiset_equiv [OF _ m]) (auto simp: fun_eq_iff ac_simps)
  then show ?thesis by simp
qed

lemma spec_xor_operands_fault:
  "spec_xor_operands h vs args = Inl e \<Longrightarrow>
   spec_xor_operands h (filter (\<lambda>v. \<not> pure_literal v) vs) args = Inl e"
proof (induction vs arbitrary: args)
  case Nil
  then show ?case by simp
next
  case (Cons v vs)
  show ?case
  proof (cases "pure_literal v")
    case True
    then show ?thesis using Cons by (auto simp: spec_operand_literal split: sum.splits prod.splits)
  next
    case False
    then show ?thesis using Cons by (auto split: sum.splits)
  qed
qed

lemma spec_xor_operands_value:
  "spec_xor_operands h vs args = Inr (rs, k, vs') \<Longrightarrow>
   \<exists>rs2 vs2. spec_xor_operands h (filter (\<lambda>v. \<not> pure_literal v) vs) args = Inr (rs2, k, vs2) \<and>
     fold (\<lambda>x r. r XOR JS_ToInt64 h x) rs 0 =
       fold (\<lambda>x r. r XOR JS_ToInt64 h x) rs2 0
         XOR fold (\<lambda>x r. r XOR JS_ToInt64 h x) (filter pure_literal vs) 0"
proof (induction vs arbitrary: args rs k vs')
  case Nil
  then show ?case by simp
next
  case (Cons v vs)
  show ?case
  proof (cases "pure_literal v")
    case True
    obtain rs1 vs1 where rest: "spec_xor_operands h vs args = Inr (rs1, k, vs1)"
      and rs: "rs = v # rs1"
      using Cons.prems True by (auto simp: spec_operand_literal split: sum.splits)
    obtain rs2 vs2 where
      f: "spec_xor_operands h (filter (\<lambda>v. \<not> pure_literal v) vs) args = Inr (rs2, k, vs2)"
      and x: "fold (\<lambda>x r. r XOR JS_ToInt64 h x) rs1 0 =
         fold (\<lambda>x r. r XOR JS_ToInt64 h x) rs2 0
           XOR fold (\<lambda>x r. r XOR JS_ToInt64 h x) (filter pure_literal vs) 0"
      using Cons.IH [OF rest] by blast
    have "fold (\<lambda>x r. r XOR JS_ToInt64 h x) rs 0 =
            fold (\<lambda>x r. r XOR JS_ToInt64 h x) rs1 0 XOR JS_ToInt64 h v"
      using xor_fold_acc [of h rs1 0 "JS_ToInt64 h v"] by (simp add: rs)
    moreover have "fold (\<lambda>x r. r XOR JS_ToInt64 h x) (filter pure_literal (v # vs)) 0 =
            fold (\<lambda>x r. r XOR JS_ToInt64 h x) (filter pure_literal vs) 0 XOR JS_ToInt64 h v"
      using True xor_fold_acc [of h "filter pure_literal vs" 0 "JS_ToInt64 h v"] by simp
    ultimately show ?thesis using f x True by (simp add: ac_simps)
  next
    case False
    obtain r0 k0 v0 rs1 k1 vs1 where
      op: "spec_operand h v args = Inr (r0, k0, v0)"
      and rest: "spec_xor_operands h vs (drop k0 args) = Inr (rs1, k1, vs1)"
      and rs: "rs = r0 # rs1" and k: "k = k0 + k1"
      using Cons.prems by (auto split: sum.splits)
    obtain rs2 vs2 where
      f: "spec_xor_operands h (filter (\<lambda>v. \<not> pure_literal v) vs) (drop k0 args) = Inr (rs2, k1, vs2)"
      and x: "fold (\<lambda>x r. r XOR JS_ToInt64 h x) rs1 0 =
         fold (\<lambda>x r. r XOR JS_ToInt64 h x) rs2 0
           XOR fold (\<lambda>x r. r XOR JS_ToInt64 h x) (filter pure_literal vs) 0"
      using Cons.IH [OF rest] by blast
    have a: "fold (\<lambda>x r. r XOR JS_ToInt64 h x) rs 0 =
            fold (\<lambda>x r. r XOR JS_ToInt64 h x) rs1 0 XOR JS_ToInt64 h r0"
      using xor_fold_acc [of h rs1 0 "JS_ToInt64 h r0"] by (simp add: rs)
    have b: "fold (\<lambda>x r. r XOR JS_ToInt64 h x) (r0 # rs2) 0 =
            fold (\<lambda>x r. r XOR JS_ToInt64 h x) rs2 0 XOR JS_ToInt64 h r0"
      using xor_fold_acc [of h rs2 0 "JS_ToInt64 h r0"] by simp
    have "spec_xor_operands h (filter (\<lambda>v. \<not> pure_literal v) (v # vs)) args
            = Inr (r0 # rs2, k, v0 # vs2)"
      using False op f k by simp
    moreover have "fold (\<lambda>x r. r XOR JS_ToInt64 h x) rs 0 =
         fold (\<lambda>x r. r XOR JS_ToInt64 h x) (r0 # rs2) 0
           XOR fold (\<lambda>x r. r XOR JS_ToInt64 h x) (filter pure_literal (v # vs)) 0"
      unfolding a b using x False by (simp add: ac_simps)
    ultimately show ?thesis by blast
  qed
qed

lemma spec_xor_reorder:
  assumes f: "filter (\<lambda>v. \<not> pure_literal v) vs = filter (\<lambda>v. \<not> pure_literal v) ws"
    and m: "mset (filter pure_literal vs) = mset (filter pure_literal ws)"
  shows "outcome (spec_xor h vs args) = outcome (spec_xor h ws args)"
proof -
  have lits: "fold (\<lambda>x r. r XOR JS_ToInt64 h x) (filter pure_literal vs) 0 =
      fold (\<lambda>x r. r XOR JS_ToInt64 h x) (filter pure_literal ws) 0"
    by (rule xor_fold_permuted [OF m])
  show ?thesis
  proof (cases "spec_xor_operands h vs args")
    case (Inl e)
    have n: "spec_xor_operands h (filter (\<lambda>v. \<not> pure_literal v) ws) args = Inl e"
      using spec_xor_operands_fault [OF Inl] f by simp
    have "spec_xor_operands h ws args = Inl e"
    proof (cases "spec_xor_operands h ws args")
      case (Inl e')
      then show ?thesis using spec_xor_operands_fault [OF Inl] n by simp
    next
      case (Inr res)
      obtain rs k ws' where "res = (rs, k, ws')" by (cases res) auto
      then show ?thesis using spec_xor_operands_value [of h ws args rs k ws'] Inr n by auto
    qed
    then show ?thesis using Inl by (simp add: spec_xor_def outcome_def)
  next
    case (Inr res)
    obtain rs k vs' where res: "res = (rs, k, vs')" by (cases res) auto
    obtain rs2 vs2 where
      n: "spec_xor_operands h (filter (\<lambda>v. \<not> pure_literal v) ws) args = Inr (rs2, k, vs2)"
      and x: "fold (\<lambda>x r. r XOR JS_ToInt64 h x) rs 0 =
         fold (\<lambda>x r. r XOR JS_ToInt64 h x) rs2 0
           XOR fold (\<lambda>x r. r XOR JS_ToInt64 h x) (filter pure_literal vs) 0"
      using spec_xor_operands_value [of h vs args rs k vs'] Inr res f by auto
    have "\<exists>rsw ws'. spec_xor_operands h ws args = Inr (rsw, k, ws') \<and>
            fold (\<lambda>x r. r XOR JS_ToInt64 h x) rsw 0 = fold (\<lambda>x r. r XOR JS_ToInt64 h x) rs 0"
    proof (cases "spec_xor_operands h ws args")
      case (Inl e')
      then show ?thesis using spec_xor_operands_fault [OF Inl] n by simp
    next
      case (Inr resw)
      obtain rsw kw ws' where resw: "resw = (rsw, kw, ws')" by (cases resw) auto
      obtain rs3 vs3 where
        "spec_xor_operands h (filter (\<lambda>v. \<not> pure_literal v) ws) args = Inr (rs3, kw, vs3)"
        and "fold (\<lambda>x r. r XOR JS_ToInt64 h x) rsw 0 =
         fold (\<lambda>x r. r XOR JS_ToInt64 h x) rs3 0
           XOR fold (\<lambda>x r. r XOR JS_ToInt64 h x) (filter pure_literal ws) 0"
        using spec_xor_operands_value [of h ws args rsw kw ws'] Inr resw by auto
      then show ?thesis using n x lits Inr resw by simp
    qed
    then show ?thesis using Inr res by (auto simp: spec_xor_def outcome_def)
  qed
qed

text \<open>
  C7. An Xor node does what the spec says of it: \<open>predicate_eval\<close> on the node is
  \<open>spec_xor\<close>. Every operand is resolved, from left to right and with no early
  stop, each on the cursor the operand before it has left (a nested predicate is evaluated
  and consumes from the cursor, a function is called with the remaining arguments, a
  literal stands for itself); the results are converted to 64-bit integers and folded with
  bitwise xor from 0, the cursor advances by the total consumed, and a fault of an operand
  is the fault of the node. Reordering the pure literals (operands that are neither a
  predicate nor a function) changes nothing: two operand lists that hold the same
  cursor-reading operands in the same order and the same pure literals in any order and at
  any positions give the same value and consume the same number of arguments, or fail with
  the same fault.
\<close>

theorem xor_eval:
  "predicate_eval h (BooleanPredicate PREDICATE_XOR vs) args = spec_xor h vs args \<and>
   (filter (\<lambda>v. \<not> pure_literal v) vs = filter (\<lambda>v. \<not> pure_literal v) ws \<and>
    mset (filter pure_literal vs) = mset (filter pure_literal ws) \<longrightarrow>
      outcome (predicate_eval h (BooleanPredicate PREDICATE_XOR vs) args)
        = outcome (predicate_eval h (BooleanPredicate PREDICATE_XOR ws) args))"
proof -
  have operand: "predicate_value h v a = spec_operand h v a" for v a
    by (cases v) simp_all
  have loop: "xor_loop h acc xs a =
     (case spec_xor_operands h xs a of
        Inl e \<Rightarrow> Inl e
      | Inr (rs, k, xs') \<Rightarrow> Inr (fold (\<lambda>x r. r XOR JS_ToInt64 h x) rs acc, k, xs'))" for acc xs a
    by (induction xs arbitrary: acc a)
       (auto simp: operand simp del: predicate_value.simps split: sum.splits)
  have e: "predicate_eval h (BooleanPredicate PREDICATE_XOR xs) args = spec_xor h xs args" for xs
    by (simp add: loop spec_xor_def split: sum.splits)
  show ?thesis
    unfolding e using spec_xor_reorder [of vs ws h args] by simp
qed

theorem xor_eval_witness:
  "filter (\<lambda>v. \<not> pure_literal v)
     [JS_Int 5, JS_Predicate (UnaryPredicate PREDICATE_EQUAL (JS_Int 6)), JS_Int 3,
      JS_Predicate (MemberPredicate (JS_Object [(1, JS_Int 8)]))]
   = filter (\<lambda>v. \<not> pure_literal v)
     [JS_Int 3, JS_Predicate (UnaryPredicate PREDICATE_EQUAL (JS_Int 6)),
      JS_Predicate (MemberPredicate (JS_Object [(1, JS_Int 8)])), JS_Int 5] \<and>
   mset (filter pure_literal
     [JS_Int 5, JS_Predicate (UnaryPredicate PREDICATE_EQUAL (JS_Int 6)), JS_Int 3,
      JS_Predicate (MemberPredicate (JS_Object [(1, JS_Int 8)]))])
   = mset (filter pure_literal
     [JS_Int 3, JS_Predicate (UnaryPredicate PREDICATE_EQUAL (JS_Int 6)),
      JS_Predicate (MemberPredicate (JS_Object [(1, JS_Int 8)])), JS_Int 5]) \<and>
   predicate_eval example_host (BooleanPredicate PREDICATE_XOR
     [JS_Int 5, JS_Predicate (UnaryPredicate PREDICATE_EQUAL (JS_Int 6)), JS_Int 3,
      JS_Predicate (MemberPredicate (JS_Object [(1, JS_Int 8)]))]) [JS_Int 6, JS_Int 1, JS_Int 9]
     = Inr (JS_Int 15, 2, BooleanPredicate PREDICATE_XOR
     [JS_Int 5, JS_Predicate (UnaryPredicate PREDICATE_EQUAL (JS_Int 6)), JS_Int 3,
      JS_Predicate (MemberPredicate (JS_Object [(1, JS_Int 8)]))]) \<and>
   spec_xor example_host
     [JS_Int 5, JS_Predicate (UnaryPredicate PREDICATE_EQUAL (JS_Int 6)), JS_Int 3,
      JS_Predicate (MemberPredicate (JS_Object [(1, JS_Int 8)]))] [JS_Int 6, JS_Int 1, JS_Int 9]
     = Inr (JS_Int 15, 2, BooleanPredicate PREDICATE_XOR
     [JS_Int 5, JS_Predicate (UnaryPredicate PREDICATE_EQUAL (JS_Int 6)), JS_Int 3,
      JS_Predicate (MemberPredicate (JS_Object [(1, JS_Int 8)]))]) \<and>
   outcome (predicate_eval example_host (BooleanPredicate PREDICATE_XOR
     [JS_Int 3, JS_Predicate (UnaryPredicate PREDICATE_EQUAL (JS_Int 6)),
      JS_Predicate (MemberPredicate (JS_Object [(1, JS_Int 8)])), JS_Int 5]) [JS_Int 6, JS_Int 1, JS_Int 9])
     = Inr (JS_Int 15, 2)"
proof -
  have lits: "pure_literal (JS_Int 5)" "pure_literal (JS_Int 3)"
    "\<not> pure_literal (JS_Predicate (UnaryPredicate PREDICATE_EQUAL (JS_Int 6)))"
    "\<not> pure_literal (JS_Predicate (MemberPredicate (JS_Object [(1, JS_Int 8)])))"
    by (simp_all add: pure_literal_def predicate_is_def js_predicate_data_def JS_IsFunction_def)
  have hyp: "filter (\<lambda>v. \<not> pure_literal v)
     [JS_Int 5, JS_Predicate (UnaryPredicate PREDICATE_EQUAL (JS_Int 6)), JS_Int 3,
      JS_Predicate (MemberPredicate (JS_Object [(1, JS_Int 8)]))]
   = filter (\<lambda>v. \<not> pure_literal v)
     [JS_Int 3, JS_Predicate (UnaryPredicate PREDICATE_EQUAL (JS_Int 6)),
      JS_Predicate (MemberPredicate (JS_Object [(1, JS_Int 8)])), JS_Int 5]"
   "mset (filter pure_literal
     [JS_Int 5, JS_Predicate (UnaryPredicate PREDICATE_EQUAL (JS_Int 6)), JS_Int 3,
      JS_Predicate (MemberPredicate (JS_Object [(1, JS_Int 8)]))])
   = mset (filter pure_literal
     [JS_Int 3, JS_Predicate (UnaryPredicate PREDICATE_EQUAL (JS_Int 6)),
      JS_Predicate (MemberPredicate (JS_Object [(1, JS_Int 8)])), JS_Int 5])"
    by (simp_all add: lits)
  have ev: "predicate_eval example_host (BooleanPredicate PREDICATE_XOR
     [JS_Int 5, JS_Predicate (UnaryPredicate PREDICATE_EQUAL (JS_Int 6)), JS_Int 3,
      JS_Predicate (MemberPredicate (JS_Object [(1, JS_Int 8)]))]) [JS_Int 6, JS_Int 1, JS_Int 9]
     = Inr (JS_Int 15, 2, BooleanPredicate PREDICATE_XOR
     [JS_Int 5, JS_Predicate (UnaryPredicate PREDICATE_EQUAL (JS_Int 6)), JS_Int 3,
      JS_Predicate (MemberPredicate (JS_Object [(1, JS_Int 8)]))])"
    by (simp add: JS_ToInt64_def JS_NewInt64_def js_arguments_shift_def
          example_host_def JS_NewBool_def JS_HasProperty_def JS_GetProperty_def)
  have fact: "predicate_eval example_host (BooleanPredicate PREDICATE_XOR
     [JS_Int 5, JS_Predicate (UnaryPredicate PREDICATE_EQUAL (JS_Int 6)), JS_Int 3,
      JS_Predicate (MemberPredicate (JS_Object [(1, JS_Int 8)]))]) [JS_Int 6, JS_Int 1, JS_Int 9]
     = spec_xor example_host
     [JS_Int 5, JS_Predicate (UnaryPredicate PREDICATE_EQUAL (JS_Int 6)), JS_Int 3,
      JS_Predicate (MemberPredicate (JS_Object [(1, JS_Int 8)]))] [JS_Int 6, JS_Int 1, JS_Int 9]"
    and same: "outcome (predicate_eval example_host (BooleanPredicate PREDICATE_XOR
     [JS_Int 5, JS_Predicate (UnaryPredicate PREDICATE_EQUAL (JS_Int 6)), JS_Int 3,
      JS_Predicate (MemberPredicate (JS_Object [(1, JS_Int 8)]))]) [JS_Int 6, JS_Int 1, JS_Int 9])
     = outcome (predicate_eval example_host (BooleanPredicate PREDICATE_XOR
     [JS_Int 3, JS_Predicate (UnaryPredicate PREDICATE_EQUAL (JS_Int 6)),
      JS_Predicate (MemberPredicate (JS_Object [(1, JS_Int 8)])), JS_Int 5]) [JS_Int 6, JS_Int 1, JS_Int 9])"
    using xor_eval [of example_host
     "[JS_Int 5, JS_Predicate (UnaryPredicate PREDICATE_EQUAL (JS_Int 6)), JS_Int 3,
      JS_Predicate (MemberPredicate (JS_Object [(1, JS_Int 8)]))]" "[JS_Int 6, JS_Int 1, JS_Int 9]"
     "[JS_Int 3, JS_Predicate (UnaryPredicate PREDICATE_EQUAL (JS_Int 6)),
      JS_Predicate (MemberPredicate (JS_Object [(1, JS_Int 8)])), JS_Int 5]"]
      hyp
    by blast+
  show ?thesis
    unfolding same [symmetric] fact [symmetric] ev
    using hyp by (simp add: outcome_def)
qed

subsection \<open>The slot count against the evaluator\<close>


lemma nested_num_args_single:
  "nested_num_args u [v] =
     (case js_predicate_data v of Some other \<Rightarrow> predicate_recursive_num_args u other | None \<Rightarrow> 0)"
  by simp





















subsection \<open>Clone, then free the original\<close>






lemma dup_fields [simp]:
  "memory (JS_DupValue rt v) = memory rt"
  "next_addr (JS_DupValue rt v) = next_addr rt"
  "atoms (JS_DupValue rt v) = atoms rt"
  by (auto simp: JS_DupValue_def split: JSRef.splits option.splits)

lemma free_fields [simp]:
  "memory (JS_FreeValueRT rt v) = memory rt"
  "next_addr (JS_FreeValueRT rt v) = next_addr rt"
  "atoms (JS_FreeValueRT rt v) = atoms rt"
  by (auto simp: JS_FreeValueRT_def split: JSRef.splits option.splits)

lemma fold_dup_fields [simp]:
  "memory (fold (\<lambda>v s. JS_DupValue s v) vs rt) = memory rt"
  "next_addr (fold (\<lambda>v s. JS_DupValue s v) vs rt) = next_addr rt"
  "atoms (fold (\<lambda>v s. JS_DupValue s v) vs rt) = atoms rt"
  by (induction vs arbitrary: rt) simp_all

lemma fold_free_fields [simp]:
  "memory (fold (\<lambda>v s. JS_FreeValueRT s v) vs rt) = memory rt"
  "next_addr (fold (\<lambda>v s. JS_FreeValueRT s v) vs rt) = next_addr rt"
  "atoms (fold (\<lambda>v s. JS_FreeValueRT s v) vs rt) = atoms rt"
  by (induction vs arbitrary: rt) simp_all









lemma dup_atom_fields [simp]:
  "memory (JS_DupAtom rt atom) = memory rt"
  "next_addr (JS_DupAtom rt atom) = next_addr rt"
  "objects (JS_DupAtom rt atom) = objects rt"
  "memory (JS_FreeAtomRT rt atom) = memory rt"
  "next_addr (JS_FreeAtomRT rt atom) = next_addr rt"
  "objects (JS_FreeAtomRT rt atom) = objects rt"
  by (simp_all add: JS_DupAtom_def JS_FreeAtomRT_def)















end
